theory Spec2Isabelle
  imports Main "HOL-Library.Multiset" "HOL-Library.Sublist"
begin

section \<open>The metadata store\<close>

text \<open>
  \<^verbatim>\<open>pipeline_recorder_utils.py\<close> reads an ML Metadata (MLMD) store through its Python
  client and copies artifact directories.  The client library is not part of the
  repository, so the store is modelled as four tables and one association table, and
  each query the file calls as a function over them.  Queries return rows in table
  order, except \<open>get_artifacts_by_id\<close>, which answers id by id.
\<close>

text \<open>
  A property value is a protobuf \<open>Value\<close> with a oneof of three cases.  The payload of a
  double is never read by this file and is left out.  Reading \<open>string_value\<close> of a value
  that holds another case gives the empty string.
\<close>

datatype mlmd_value = Int_value int | Double_value | String_value string | Value_not_set

fun string_value :: "mlmd_value \<Rightarrow> string" where
  "string_value (String_value s) = s"
| "string_value (Int_value i) = []"
| "string_value Double_value = []"
| "string_value Value_not_set = []"

type_synonym properties = "string \<rightharpoonup> mlmd_value"

text \<open>
  \<open>m[key]\<close> on a protobuf map whose values are messages never raises: a missing key
  gives the default message.
\<close>

definition getitem :: "properties \<Rightarrow> string \<Rightarrow> mlmd_value" where
  "getitem m key = (case m key of None \<Rightarrow> Value_not_set | Some v \<Rightarrow> v)"

datatype event_type =
  UNKNOWN | DECLARED_OUTPUT | DECLARED_INPUT | INPUT | OUTPUT | INTERNAL_INPUT | INTERNAL_OUTPUT

record execution =
  e_id :: int
  e_properties :: properties

record artifact =
  a_id :: int
  uri :: string
  custom_properties :: properties

record event =
  artifact_id :: int
  execution_id :: int
  ev_type :: event_type

record context_rec =
  c_id :: int
  c_type :: string
  c_properties :: properties
  last_update_time_since_epoch :: int

record mlmd_store =
  executions :: "execution list"
  artifacts :: "artifact list"
  events :: "event list"
  contexts :: "context_rec list"
  associations :: "(int \<times> int) list"

definition get_executions :: "mlmd_store \<Rightarrow> execution list" where
  "get_executions st = executions st"

definition get_events_by_execution_ids :: "mlmd_store \<Rightarrow> int list \<Rightarrow> event list" where
  "get_events_by_execution_ids st ids = filter (\<lambda>x. execution_id x \<in> set ids) (events st)"

text \<open>The result is not index-aligned: an id no artifact has is skipped.\<close>

definition get_artifacts_by_id :: "mlmd_store \<Rightarrow> int list \<Rightarrow> artifact list" where
  "get_artifacts_by_id st ids =
     List.map_filter (\<lambda>i. find (\<lambda>a. a_id a = i) (artifacts st)) ids"

definition get_contexts_by_type :: "mlmd_store \<Rightarrow> string \<Rightarrow> context_rec list" where
  "get_contexts_by_type st type_name = filter (\<lambda>c. c_type c = type_name) (contexts st)"

text \<open>An association row \<open>(context id, execution id)\<close> attaches an execution to a context.\<close>

definition get_executions_by_context :: "mlmd_store \<Rightarrow> int \<Rightarrow> execution list" where
  "get_executions_by_context st cid =
     filter (\<lambda>e. (cid, e_id e) \<in> set (associations st)) (executions st)"

section \<open>Python built-ins\<close>

text \<open>
  The exceptions a run can end with.  \<open>ValueError\<close> and \<open>FileNotFoundError\<close> are the
  classes this file raises itself; a built-in, a protobuf assignment or a library call
  can raise them too.  \<open>LibraryError\<close> stands for an exception of any other class that
  escapes \<open>os.makedirs\<close> or \<open>io_utils.copy_dir\<close>.
\<close>

datatype error = ValueError string | FileNotFoundError string | LibraryError string

text \<open>
  \<open>posixpath.join\<close>: a component that starts with the separator discards what came before;
  otherwise it is appended, after a separator unless the path so far is empty or ends
  with one.
\<close>

fun startswith_sep :: "string \<Rightarrow> bool" where
  "startswith_sep [] = False"
| "startswith_sep (c # cs) = (c = CHR ''/'')"

definition endswith_sep :: "string \<Rightarrow> bool" where
  "endswith_sep s = (s \<noteq> [] \<and> last s = CHR ''/'')"

definition join_step :: "string \<Rightarrow> string \<Rightarrow> string" where
  "join_step path b =
     (if startswith_sep b then b
      else if path = [] \<or> endswith_sep path then path @ b
      else path @ ''/'' @ b)"

definition os_path_join :: "string \<Rightarrow> string list \<Rightarrow> string" where
  "os_path_join a p = foldl join_step a p"


text \<open>\<open>'%d' % i\<close>: the decimal digits of an integer, with a minus sign when negative.\<close>

function str_nat :: "nat \<Rightarrow> string" where
  "str_nat n =
     (if n < 10 then [''0123456789'' ! n]
      else str_nat (n div 10) @ [''0123456789'' ! (n mod 10)])"
  by pat_completeness auto
termination
  by (relation "measure id") auto

definition str_int :: "int \<Rightarrow> string" where
  "str_int i = (if i < 0 then ''-'' @ str_nat (nat (- i)) else str_nat (nat i))"

text \<open>
  \<open>max(xs, key=f)\<close>: the first element whose key no other exceeds; \<open>ValueError\<close> on an
  empty sequence.
\<close>

fun py_max :: "('a \<Rightarrow> int) \<Rightarrow> 'a list \<Rightarrow> error + 'a" where
  "py_max key [] = Inl (ValueError ''max() arg is an empty sequence'')"
| "py_max key (x # xs) = Inr (foldl (\<lambda>m y. if key m < key y then y else m) x xs)"

section \<open>get\_paths\<close>

text \<open>
  \<open>list({x.artifact_id for x in events})\<close> lists the distinct artifact ids in the order
  the Python set iterates, which the language leaves to the implementation.  The order
  is a parameter \<open>set_list\<close>; \<open>enumerates\<close> says what every implementation gives.
\<close>

definition enumerates :: "(int list \<Rightarrow> int list) \<Rightarrow> bool" where
  "enumerates set_list = (\<forall>xs. set (set_list xs) = set xs \<and> distinct (set_list xs))"

text \<open>Lines 56 to 59, the destination computed for one artifact.\<close>

definition dest_of :: "string \<Rightarrow> artifact \<Rightarrow> string" where
  "dest_of output_dir artifact =
     (let component_id = string_value (getitem (custom_properties artifact) ''producer_component'');
          name = string_value (getitem (custom_properties artifact) ''name'')
      in os_path_join output_dir [component_id, name])"

definition get_paths ::
  "(int list \<Rightarrow> int list) \<Rightarrow> mlmd_store \<Rightarrow> execution list \<Rightarrow> string \<Rightarrow> (string \<times> string) list"
where
  "get_paths set_list st execs output_dir =
     (let evs = filter (\<lambda>x. ev_type x = OUTPUT)
                  (get_events_by_execution_ids st (map e_id execs));
          unique_artifact_ids = set_list (map artifact_id evs)
      in map (\<lambda>artifact. (uri artifact, dest_of output_dir artifact))
           (get_artifacts_by_id st unique_artifact_ids))"

section \<open>get\_execution\_dict\<close>

definition run_id_of :: "execution \<Rightarrow> string" where
  "run_id_of execution = string_value (getitem (e_properties execution) ''run_id'')"

text \<open>A \<open>defaultdict(list)\<close>: appending under a key that is absent starts from the empty list.\<close>

definition append_item ::
  "(string \<rightharpoonup> execution list) \<Rightarrow> execution \<Rightarrow> (string \<rightharpoonup> execution list)"
where
  "append_item d execution =
     d(run_id_of execution \<mapsto>
         (case d (run_id_of execution) of None \<Rightarrow> [] | Some l \<Rightarrow> l) @ [execution])"

definition get_execution_dict :: "mlmd_store \<Rightarrow> (string \<rightharpoonup> execution list)" where
  "get_execution_dict st = foldl append_item Map.empty (get_executions st)"

section \<open>get\_latest\_executions\<close>

text \<open>
  \<open>metadata._CONTEXT_TYPE_PIPELINE_RUN\<close> is a constant of \<open>tfx.orchestration.metadata\<close>;
  it is the parameter \<open>run_type\<close>.
\<close>

definition pipeline_run_contexts :: "string \<Rightarrow> mlmd_store \<Rightarrow> string \<Rightarrow> context_rec list" where
  "pipeline_run_contexts run_type st pipeline_name =
     filter (\<lambda>c. string_value (getitem (c_properties c) ''pipeline_name'') = pipeline_name)
       (get_contexts_by_type st run_type)"

definition get_latest_executions :: "string \<Rightarrow> mlmd_store \<Rightarrow> string \<Rightarrow> error + execution list" where
  "get_latest_executions run_type st pipeline_name =
     (case py_max last_update_time_since_epoch (pipeline_run_contexts run_type st pipeline_name) of
        Inl e \<Rightarrow> Inl e
      | Inr latest_context \<Rightarrow> Inr (get_executions_by_context st (c_id latest_context)))"

section \<open>record\_pipeline\<close>

datatype metadata_config = Grpc_config string int | Sqlite_config string

text \<open>
  The file system is reached through three library calls: \<open>tf.io.gfile.exists\<close>,
  \<open>os.makedirs(dest, exist_ok=True)\<close> and \<open>io_utils.copy_dir\<close>.  None of them is in this
  file, so they are parameters over a file-system state \<open>'fs\<close>.  The last two return
  the new state and, when they raise, the exception.  A run carries the state and the
  list of the calls that have returned normally.
\<close>

datatype fs_call = Makedirs string | Copy_dir string string

record 'fs world =
  fs :: 'fs
  performed :: "fs_call list"

text \<open>
  What \<open>record_pipeline\<close> takes from outside the file: the constant
  \<open>metadata._CONTEXT_TYPE_PIPELINE_RUN\<close>, the iteration order of a set of ids, the store
  that \<open>metadata.Metadata\<close> opens for a configuration, and the three file-system calls.
\<close>

record 'fs env =
  run_type :: string
  set_list :: "int list \<Rightarrow> int list"
  connect :: "metadata_config \<Rightarrow> mlmd_store"
  gfile_exists :: "'fs \<Rightarrow> string \<Rightarrow> bool"
  os_makedirs :: "string \<Rightarrow> 'fs \<Rightarrow> error option \<times> 'fs"
  copy_dir :: "string \<Rightarrow> string \<Rightarrow> 'fs \<Rightarrow> error option \<times> 'fs"

text \<open>
  Lines 118 to 127: host and port together choose the gRPC client configuration, else
  the database uri chooses the SQLite one, else \<open>ValueError\<close>.  The assignment
  \<open>metadata_config.port = port\<close> of line 121 stores into a 64-bit protobuf field and
  raises \<open>ValueError\<close> for an integer outside its range.
\<close>

definition int64_range :: "int \<Rightarrow> bool" where
  "int64_range i = (- (2 ^ 63) \<le> i \<and> i < 2 ^ 63)"

definition choose_config :: "string option \<Rightarrow> string option \<Rightarrow> int option \<Rightarrow> error + metadata_config" where
  "choose_config metadata_db_uri host port =
     (if host \<noteq> None \<and> port \<noteq> None then
        (if int64_range (the port) then Inr (Grpc_config (the host) (the port))
         else Inl (ValueError (''Value out of range: '' @ str_int (the port))))
      else if metadata_db_uri \<noteq> None then Inr (Sqlite_config (the metadata_db_uri))
      else Inl (ValueError
        ''For KFP, host and port are required. For beam pipeline, metadata_db_uri is required.''))"

text \<open>
  Lines 130 to 143: without a run id the executions of the latest context of the
  pipeline, with one the entry of the execution dictionary.
\<close>

definition select_executions ::
  "string \<Rightarrow> mlmd_store \<Rightarrow> string option \<Rightarrow> string option \<Rightarrow> error + execution list"
where
  "select_executions rt st pipeline_name run_id =
     (case run_id of
        None \<Rightarrow>
          (case pipeline_name of
             None \<Rightarrow> Inl (ValueError
               ''If the run_id is not specified, pipeline_name should be specified'')
           | Some pn \<Rightarrow> get_latest_executions rt st pn)
      | Some rid \<Rightarrow>
          (case get_execution_dict st rid of
             Some es \<Rightarrow> Inr es
           | None \<Rightarrow> Inl (ValueError
               (''run_id '' @ rid @ '' is not recorded in the MLMD metadata''))))"


text \<open>
  Lines 144 to 149, the loop over the pairs of \<open>get_paths\<close>.  An exception ends the loop
  and keeps the state reached so far.
\<close>

fun copy_paths ::
  "'fs env \<Rightarrow> (string \<times> string) list \<Rightarrow> 'fs world \<Rightarrow> error option \<times> 'fs world"
where
  "copy_paths env [] w = (None, w)"
| "copy_paths env ((src_uri, dest_uri) # rest) w =
     (if \<not> gfile_exists env (fs w) src_uri
      then (Some (FileNotFoundError (src_uri @ '' does not exist'')), w)
      else
        (case os_makedirs env dest_uri (fs w) of
           (Some e, f1) \<Rightarrow> (Some e, w\<lparr>fs := f1\<rparr>)
         | (None, f1) \<Rightarrow>
             (case copy_dir env src_uri dest_uri f1 of
                (Some e, f2) \<Rightarrow>
                  (Some e, \<lparr>fs = f2, performed = performed w @ [Makedirs dest_uri]\<rparr>)
              | (None, f2) \<Rightarrow>
                  copy_paths env rest
                    \<lparr>fs = f2,
                     performed = performed w @ [Makedirs dest_uri, Copy_dir src_uri dest_uri]\<rparr>)))"

definition record_pipeline ::
  "'fs env \<Rightarrow> string \<Rightarrow> string option \<Rightarrow> string option \<Rightarrow> int option \<Rightarrow>
   string option \<Rightarrow> string option \<Rightarrow> 'fs world \<Rightarrow> error option \<times> 'fs world"
where
  "record_pipeline env output_dir metadata_db_uri host port pipeline_name run_id w =
     (case choose_config metadata_db_uri host port of
        Inl e \<Rightarrow> (Some e, w)
      | Inr metadata_config \<Rightarrow>
          (let st = connect env metadata_config in
           case select_executions (run_type env) st pipeline_name run_id of
             Inl e \<Rightarrow> (Some e, w)
           | Inr execs \<Rightarrow> copy_paths env (get_paths (set_list env) st execs output_dir) w))"

section \<open>A small store and file system\<close>

definition ex_e1 :: execution where
  "ex_e1 = \<lparr>e_id = 1, e_properties = [''run_id'' \<mapsto> String_value ''r1'']\<rparr>"

definition ex_e2 :: execution where
  "ex_e2 = \<lparr>e_id = 2, e_properties = [''run_id'' \<mapsto> String_value ''r2'']\<rparr>"

definition ex_e3 :: execution where
  "ex_e3 = \<lparr>e_id = 3, e_properties = [''run_id'' \<mapsto> String_value ''r1'']\<rparr>"

definition ex_a1 :: artifact where
  "ex_a1 = \<lparr>a_id = 10, uri = ''/data/gen'', custom_properties =
     [''producer_component'' \<mapsto> String_value ''Gen'', ''name'' \<mapsto> String_value ''examples'']\<rparr>"

definition ex_a2 :: artifact where
  "ex_a2 = \<lparr>a_id = 11, uri = ''/data/model'', custom_properties =
     [''producer_component'' \<mapsto> String_value ''Trainer'', ''name'' \<mapsto> String_value ''model'']\<rparr>"

definition ex_a3 :: artifact where
  "ex_a3 = \<lparr>a_id = 12, uri = ''/data/raw'', custom_properties =
     [''producer_component'' \<mapsto> String_value ''Import'', ''name'' \<mapsto> String_value ''/abs'']\<rparr>"

definition ex_c1 :: context_rec where
  "ex_c1 = \<lparr>c_id = 100, c_type = ''run'', c_properties =
     [''pipeline_name'' \<mapsto> String_value ''p''], last_update_time_since_epoch = 5\<rparr>"

definition ex_c2 :: context_rec where
  "ex_c2 = \<lparr>c_id = 101, c_type = ''run'', c_properties =
     [''pipeline_name'' \<mapsto> String_value ''p''], last_update_time_since_epoch = 9\<rparr>"

definition ex_store :: mlmd_store where
  "ex_store =
     \<lparr>executions = [ex_e1, ex_e2, ex_e3],
      artifacts = [ex_a1, ex_a2, ex_a3],
      events =
        [\<lparr>artifact_id = 12, execution_id = 1, ev_type = INPUT\<rparr>,
         \<lparr>artifact_id = 10, execution_id = 1, ev_type = OUTPUT\<rparr>,
         \<lparr>artifact_id = 10, execution_id = 3, ev_type = INPUT\<rparr>,
         \<lparr>artifact_id = 11, execution_id = 3, ev_type = OUTPUT\<rparr>,
         \<lparr>artifact_id = 10, execution_id = 3, ev_type = OUTPUT\<rparr>],
      contexts = [ex_c1, ex_c2],
      associations = [(100, 2), (101, 1), (101, 3)]\<rparr>"

text \<open>
  A file system that is the list of the paths that exist; both calls make their
  destination exist and never raise.
\<close>

definition ex_env :: "string list env" where
  "ex_env =
     \<lparr>run_type = ''run'',
      set_list = remdups,
      connect = (\<lambda>c. ex_store),
      gfile_exists = (\<lambda>f p. p \<in> set f),
      os_makedirs = (\<lambda>p f. (None, p # f)),
      copy_dir = (\<lambda>s d f. (None, d # f))\<rparr>"

definition ex_world :: "string list world" where
  "ex_world = \<lparr>fs = [''/data/gen'', ''/data/model''], performed = []\<rparr>"

definition ex_world_partial :: "string list world" where
  "ex_world_partial = \<lparr>fs = [''/data/model''], performed = []\<rparr>"




text \<open>A file system in which \<open>os.makedirs\<close> raises \<open>ValueError\<close> for every path.\<close>

definition ex_env_nul :: "string list env" where
  "ex_env_nul = ex_env\<lparr>os_makedirs := (\<lambda>p f. (Some (ValueError ''embedded null byte''), f))\<rparr>"

section \<open>The documented error cases\<close>


section \<open>get\_execution\_dict groups by run id\<close>

lemma append_item_apply:
  "append_item d e k =
     (if k = run_id_of e then Some ((case d k of None \<Rightarrow> [] | Some l \<Rightarrow> l) @ [e]) else d k)"
  by (simp add: append_item_def)

lemma foldl_append_item:
  "foldl append_item d es k =
     (if filter (\<lambda>e. run_id_of e = k) es = [] then d k
      else Some ((case d k of None \<Rightarrow> [] | Some l \<Rightarrow> l) @ filter (\<lambda>e. run_id_of e = k) es))"
proof (induction es arbitrary: d)
  case Nil
  show ?case by simp
next
  case (Cons e es)
  have "foldl append_item d (e # es) k = foldl append_item (append_item d e) es k"
    by simp
  also have "\<dots> = (if filter (\<lambda>e. run_id_of e = k) es = [] then append_item d e k
      else Some ((case append_item d e k of None \<Rightarrow> [] | Some l \<Rightarrow> l) @ filter (\<lambda>e. run_id_of e = k) es))"
    by (rule Cons.IH)
  finally have step: "foldl append_item d (e # es) k =
      (if filter (\<lambda>e. run_id_of e = k) es = [] then append_item d e k
       else Some ((case append_item d e k of None \<Rightarrow> [] | Some l \<Rightarrow> l) @ filter (\<lambda>e. run_id_of e = k) es))" .
  show ?case unfolding step
    by (simp add: append_item_apply)
qed

lemma get_execution_dict_apply:
  "get_execution_dict st k =
     (if filter (\<lambda>e. run_id_of e = k) (get_executions st) = [] then None
      else Some (filter (\<lambda>e. run_id_of e = k) (get_executions st)))"
  unfolding get_execution_dict_def foldl_append_item by simp

lemma count_list_filter:
  "P e \<Longrightarrow> count_list (filter P xs) e = count_list xs e"
  by (induction xs) auto

text \<open>
  C5.  \<open>get_execution_dict\<close> partitions the executions of the store by run id: under a
  key stand exactly the executions with that run id, in the order \<open>get_executions\<close>
  returned them, and a key with no execution is absent.  Every execution of the store
  is found under its own run id, as often as \<open>get_executions\<close> returned it, and under no
  other key.
\<close>

theorem get_execution_dict_partitions:
  "get_execution_dict st k =
     (if \<exists>e \<in> set (get_executions st). run_id_of e = k
      then Some (filter (\<lambda>e. run_id_of e = k) (get_executions st)) else None)
   \<and> (\<forall>e \<in> set (get_executions st).
         \<exists>l. get_execution_dict st (run_id_of e) = Some l
           \<and> count_list l e = count_list (get_executions st) e
           \<and> (\<forall>k' l'. get_execution_dict st k' = Some l' \<and> e \<in> set l' \<longrightarrow> k' = run_id_of e))"
proof (intro conjI ballI)
  show "get_execution_dict st k =
     (if \<exists>e \<in> set (get_executions st). run_id_of e = k
      then Some (filter (\<lambda>e. run_id_of e = k) (get_executions st)) else None)"
    by (auto simp: get_execution_dict_apply filter_empty_conv)
next
  fix e assume e: "e \<in> set (get_executions st)"
  let ?l = "filter (\<lambda>x. run_id_of x = run_id_of e) (get_executions st)"
  from e have ne: "?l \<noteq> []" by (auto simp: filter_empty_conv)
  have 1: "get_execution_dict st (run_id_of e) = Some ?l"
    using ne by (simp add: get_execution_dict_apply)
  have 2: "count_list ?l e = count_list (get_executions st) e"
    by (rule count_list_filter) simp
  have 3: "\<forall>k' l'. get_execution_dict st k' = Some l' \<and> e \<in> set l' \<longrightarrow> k' = run_id_of e"
    by (auto simp: get_execution_dict_apply split: if_splits)
  from 1 2 3 show "\<exists>l. get_execution_dict st (run_id_of e) = Some l
           \<and> count_list l e = count_list (get_executions st) e
           \<and> (\<forall>k' l'. get_execution_dict st k' = Some l' \<and> e \<in> set l' \<longrightarrow> k' = run_id_of e)"
    by blast
qed

lemma ex_run_ids:
  "run_id_of ex_e1 = ''r1''" "run_id_of ex_e2 = ''r2''" "run_id_of ex_e3 = ''r1''"
  by (simp_all add: run_id_of_def getitem_def ex_e1_def ex_e2_def ex_e3_def)

theorem get_execution_dict_partitions_witness:
  "get_execution_dict ex_store ''r1'' = Some [ex_e1, ex_e3]
   \<and> get_execution_dict ex_store ''r2'' = Some [ex_e2]
   \<and> get_execution_dict ex_store ''r3'' = None"
  using get_execution_dict_partitions [of ex_store "''r1''"]
    get_execution_dict_partitions [of ex_store "''r2''"]
    get_execution_dict_partitions [of ex_store "''r3''"]
  by (simp add: get_executions_def ex_store_def ex_run_ids)

section \<open>get\_paths selects the output artifacts\<close>

lemma get_artifacts_by_id_ids:
  assumes "\<forall>i \<in> set ids. \<exists>a \<in> set (artifacts st). a_id a = i"
  shows "map a_id (get_artifacts_by_id st ids) = ids"
  using assms
proof (induction ids)
  case Nil
  show ?case by (simp add: get_artifacts_by_id_def)
next
  case (Cons i ids)
  from Cons.prems obtain a where a: "List.find (\<lambda>a. a_id a = i) (artifacts st) = Some a"
    by (cases "List.find (\<lambda>a. a_id a = i) (artifacts st)") (auto simp: find_None_iff)
  then have "a_id a = i" by (auto simp: find_Some_iff)
  with a Cons show ?case
    by (simp add: get_artifacts_by_id_def)
qed

lemma find_SomeD:
  "List.find P xs = Some a \<Longrightarrow> a \<in> set xs \<and> P a"
  by (auto simp: find_Some_iff)

lemma get_artifacts_by_id_subset:
  "set (get_artifacts_by_id st ids) \<subseteq> set (artifacts st)"
proof (induction ids)
  case Nil
  show ?case by (simp add: get_artifacts_by_id_def)
next
  case (Cons i ids)
  then show ?case
    by (cases "List.find (\<lambda>a. a_id a = i) (artifacts st)")
       (auto simp: get_artifacts_by_id_def dest: find_SomeD)
qed

lemma output_ids_set:
  "set (map artifact_id (filter (\<lambda>x. ev_type x = OUTPUT)
          (get_events_by_execution_ids st (map e_id execs)))) =
   artifact_id ` {x \<in> set (events st). execution_id x \<in> e_id ` set execs \<and> ev_type x = OUTPUT}"
  by (auto simp: get_events_by_execution_ids_def)

text \<open>
  C1.  In a store where every event refers to an artifact that exists, \<open>get_paths\<close>
  yields one pair per artifact of a list \<open>sel\<close> of artifacts of the store whose ids are
  pairwise distinct and are exactly the artifact ids that occur in an \<open>OUTPUT\<close> event of
  one of the given executions.  So an artifact that only \<open>INPUT\<close> events refer to gives no
  pair, an artifact that several \<open>OUTPUT\<close> events refer to gives one, and the number of
  pairs is the number of distinct output artifact ids.
\<close>

theorem get_paths_one_pair_per_output_artifact:
  assumes "enumerates order"
      and "\<forall>x \<in> set (events st). \<exists>a \<in> set (artifacts st). a_id a = artifact_id x"
  shows "\<exists>sel. get_paths order st execs output_dir =
                 map (\<lambda>a. (uri a, dest_of output_dir a)) sel
           \<and> set sel \<subseteq> set (artifacts st)
           \<and> distinct (map a_id sel)
           \<and> set (map a_id sel) =
               artifact_id ` {x \<in> set (events st).
                                execution_id x \<in> e_id ` set execs \<and> ev_type x = OUTPUT}
           \<and> length (get_paths order st execs output_dir) =
               card (artifact_id ` {x \<in> set (events st).
                                execution_id x \<in> e_id ` set execs \<and> ev_type x = OUTPUT})"
proof -
  let ?evs = "filter (\<lambda>x. ev_type x = OUTPUT) (get_events_by_execution_ids st (map e_id execs))"
  let ?ids = "order (map artifact_id ?evs)"
  let ?sel = "get_artifacts_by_id st ?ids"
  let ?out = "artifact_id ` {x \<in> set (events st).
                                execution_id x \<in> e_id ` set execs \<and> ev_type x = OUTPUT}"
  from assms(1) have set_ids: "set ?ids = set (map artifact_id ?evs)" and dist: "distinct ?ids"
    by (simp_all add: enumerates_def)
  have ids_out: "set ?ids = ?out"
    unfolding set_ids by (rule output_ids_set)
  have "\<forall>i \<in> set ?ids. \<exists>a \<in> set (artifacts st). a_id a = i"
    unfolding ids_out using assms(2) by auto
  then have ids: "map a_id ?sel = ?ids"
    by (rule get_artifacts_by_id_ids)
  have 1: "get_paths order st execs output_dir = map (\<lambda>a. (uri a, dest_of output_dir a)) ?sel"
    by (simp add: get_paths_def Let_def)
  have 2: "set ?sel \<subseteq> set (artifacts st)"
    by (rule get_artifacts_by_id_subset)
  have 3: "distinct (map a_id ?sel)"
    unfolding ids by (rule dist)
  have 4: "set (map a_id ?sel) = ?out"
    unfolding ids by (rule ids_out)
  have "length ?sel = length ?ids"
    using ids by (metis length_map)
  also have "\<dots> = card (set ?ids)"
    using dist by (simp add: distinct_card)
  finally have 5: "length (get_paths order st execs output_dir) = card ?out"
    unfolding 1 ids_out by simp
  from 1 2 3 4 5 show ?thesis by blast
qed

lemma ex_paths:
  "get_paths remdups ex_store [ex_e1, ex_e3] ''out'' =
     [(''/data/model'', ''out/Trainer/model''), (''/data/gen'', ''out/Gen/examples'')]"
  by (simp add: get_paths_def get_events_by_execution_ids_def get_artifacts_by_id_def
      dest_of_def os_path_join_def join_step_def endswith_sep_def getitem_def
      ex_store_def ex_e1_def ex_e3_def ex_a1_def ex_a2_def ex_a3_def)

theorem get_paths_one_pair_per_output_artifact_witness:
  "\<exists>sel. get_paths remdups ex_store [ex_e1, ex_e3] ''out'' =
                 map (\<lambda>a. (uri a, dest_of ''out'' a)) sel
           \<and> set sel \<subseteq> set (artifacts ex_store)
           \<and> distinct (map a_id sel)
           \<and> set (map a_id sel) =
               artifact_id ` {x \<in> set (events ex_store).
                                execution_id x \<in> e_id ` set [ex_e1, ex_e3] \<and> ev_type x = OUTPUT}
           \<and> length (get_paths remdups ex_store [ex_e1, ex_e3] ''out'') =
               card (artifact_id ` {x \<in> set (events ex_store).
                                execution_id x \<in> e_id ` set [ex_e1, ex_e3] \<and> ev_type x = OUTPUT})"
proof -
  have h1: "enumerates remdups"
    by (simp add: enumerates_def)
  have h2: "\<forall>x \<in> set (events ex_store). \<exists>a \<in> set (artifacts ex_store). a_id a = artifact_id x"
    by (simp add: ex_store_def ex_a1_def ex_a2_def ex_a3_def)
  show ?thesis
    by (rule get_paths_one_pair_per_output_artifact [OF h1 h2])
qed

section \<open>The shape of a pair\<close>

lemma os_path_join_two:
  assumes "p \<noteq> []" "\<not> startswith_sep p" "\<not> endswith_sep p" "\<not> startswith_sep n"
  shows "os_path_join output_dir [p, n] =
           (if output_dir = [] \<or> endswith_sep output_dir then output_dir else output_dir @ ''/'')
           @ p @ ''/'' @ n"
  using assms by (simp add: os_path_join_def join_step_def endswith_sep_def)


section \<open>The latest context\<close>

lemma foldl_max_invariant:
  fixes key :: "'a \<Rightarrow> int"
  shows "foldl (\<lambda>m y. if key m < key y then y else m) x xs \<in> set (x # xs)
   \<and> (\<forall>y \<in> set (x # xs). key y \<le> key (foldl (\<lambda>m y. if key m < key y then y else m) x xs))"
proof (induction xs arbitrary: x)
  case Nil
  show ?case by simp
next
  case (Cons z zs)
  let ?x' = "if key x < key z then z else x"
  have step: "foldl (\<lambda>m y. if key m < key y then y else m) x (z # zs)
      = foldl (\<lambda>m y. if key m < key y then y else m) ?x' zs"
    by simp
  from Cons.IH [of ?x'] show ?case
    unfolding step by (auto split: if_splits)
qed

lemma py_max_greatest:
  fixes key :: "'a \<Rightarrow> int"
  assumes "xs \<noteq> []"
  shows "\<exists>m \<in> set xs. (\<forall>y \<in> set xs. key y \<le> key m) \<and> py_max key xs = Inr m"
proof (cases xs)
  case Nil
  with assms show ?thesis by simp
next
  case (Cons x rest)
  let ?m = "foldl (\<lambda>m y. if key m < key y then y else m) x rest"
  from foldl_max_invariant [of key x rest]
  have "?m \<in> set (x # rest)" and "\<forall>y \<in> set (x # rest). key y \<le> key ?m"
    by blast+
  moreover have "py_max key (x # rest) = Inr ?m"
    by simp
  ultimately show ?thesis
    unfolding Cons by blast
qed

text \<open>
  C3.  When some context of the pipeline-run type carries the pipeline name,
  \<open>get_latest_executions\<close> returns the executions that \<open>get_executions_by_context\<close> gives
  for one of the contexts that carry the name, and no context that carries the name
  was updated later than that one.
\<close>

theorem get_latest_executions_latest:
  assumes "\<exists>c \<in> set (get_contexts_by_type st rt).
             string_value (getitem (c_properties c) ''pipeline_name'') = pipeline_name"
  shows "\<exists>c \<in> set (get_contexts_by_type st rt).
           string_value (getitem (c_properties c) ''pipeline_name'') = pipeline_name
           \<and> (\<forall>c' \<in> set (get_contexts_by_type st rt).
                 string_value (getitem (c_properties c') ''pipeline_name'') = pipeline_name
                 \<longrightarrow> last_update_time_since_epoch c' \<le> last_update_time_since_epoch c)
           \<and> get_latest_executions rt st pipeline_name =
                 Inr (get_executions_by_context st (c_id c))"
proof -
  from assms have "pipeline_run_contexts rt st pipeline_name \<noteq> []"
    by (auto simp: pipeline_run_contexts_def filter_empty_conv)
  from py_max_greatest [OF this, of last_update_time_since_epoch]
  obtain m where m: "m \<in> set (pipeline_run_contexts rt st pipeline_name)"
    and top: "\<forall>y \<in> set (pipeline_run_contexts rt st pipeline_name).
                last_update_time_since_epoch y \<le> last_update_time_since_epoch m"
    and mx: "py_max last_update_time_since_epoch (pipeline_run_contexts rt st pipeline_name) = Inr m"
    by blast
  from mx have "get_latest_executions rt st pipeline_name =
                 Inr (get_executions_by_context st (c_id m))"
    by (simp add: get_latest_executions_def)
  with m top show ?thesis
    by (auto simp: pipeline_run_contexts_def)
qed

lemma ex_latest:
  "get_latest_executions ''run'' ex_store ''p'' = Inr [ex_e1, ex_e3]"
  by (simp add: get_latest_executions_def pipeline_run_contexts_def get_contexts_by_type_def
      get_executions_by_context_def getitem_def ex_store_def ex_c1_def ex_c2_def
      ex_e1_def ex_e2_def ex_e3_def)

theorem get_latest_executions_latest_witness:
  "(\<exists>c \<in> set (get_contexts_by_type ex_store ''run'').
           string_value (getitem (c_properties c) ''pipeline_name'') = ''p''
           \<and> (\<forall>c' \<in> set (get_contexts_by_type ex_store ''run'').
                 string_value (getitem (c_properties c') ''pipeline_name'') = ''p''
                 \<longrightarrow> last_update_time_since_epoch c' \<le> last_update_time_since_epoch c)
           \<and> get_latest_executions ''run'' ex_store ''p'' =
                 Inr (get_executions_by_context ex_store (c_id c)))
   \<and> get_latest_executions ''run'' ex_store ''p'' = Inr [ex_e1, ex_e3]"
proof -
  have h: "\<exists>c \<in> set (get_contexts_by_type ex_store ''run'').
             string_value (getitem (c_properties c) ''pipeline_name'') = ''p''"
    by (simp add: get_contexts_by_type_def getitem_def ex_store_def ex_c1_def ex_c2_def)
  from get_latest_executions_latest [OF h] ex_latest show ?thesis
    by (rule conjI)
qed

section \<open>record\_pipeline: which executions, which copies\<close>

lemma select_executions_run_id:
  "select_executions rt st pipeline_name (Some rid) =
     (if \<exists>e \<in> set (get_executions st). run_id_of e = rid
      then Inr (filter (\<lambda>e. run_id_of e = rid) (get_executions st))
      else Inl (ValueError (''run_id '' @ rid @ '' is not recorded in the MLMD metadata'')))"
  by (auto simp: select_executions_def get_execution_dict_apply filter_empty_conv)

lemma record_pipeline_selected:
  assumes "choose_config metadata_db_uri host port = Inr cfg"
      and "select_executions (run_type env) (connect env cfg) pipeline_name run_id = Inr execs"
  shows "record_pipeline env output_dir metadata_db_uri host port pipeline_name run_id w =
           copy_paths env (get_paths (set_list env) (connect env cfg) execs output_dir) w"
  using assms by (simp add: record_pipeline_def)

lemma record_pipeline_select_error:
  assumes "choose_config metadata_db_uri host port = Inr cfg"
      and "select_executions (run_type env) (connect env cfg) pipeline_name run_id = Inl e"
  shows "record_pipeline env output_dir metadata_db_uri host port pipeline_name run_id w =
           (Some e, w)"
  using assms by (simp add: record_pipeline_def)


text \<open>
  C4.  With a run id, the executions selected are exactly those of the store whose run
  id is the given one, in store order, whatever the pipeline name; when there is none
  the selection is the \<open>ValueError\<close>.  The selection does not read the contexts, their
  associations or the pipeline-run type, so the lookup of the latest context plays no
  part; \<open>record_pipeline\<close> copies the paths of exactly these executions.  Without a run
  id and with a pipeline name the selection is \<open>get_latest_executions\<close>.
\<close>

theorem record_pipeline_by_run_id:
  "select_executions rt st pipeline_name (Some rid) =
     (if \<exists>e \<in> set (get_executions st). run_id_of e = rid
      then Inr (filter (\<lambda>e. run_id_of e = rid) (get_executions st))
      else Inl (ValueError (''run_id '' @ rid @ '' is not recorded in the MLMD metadata'')))
   \<and> select_executions rt st pipeline_name (Some rid) =
       select_executions rt' (st\<lparr>contexts := cs, associations := asc\<rparr>) pipeline_name' (Some rid)
   \<and> record_pipeline env output_dir metadata_db_uri host port pipeline_name (Some rid) w =
       (case choose_config metadata_db_uri host port of
          Inl e \<Rightarrow> (Some e, w)
        | Inr cfg \<Rightarrow>
            if \<exists>e \<in> set (get_executions (connect env cfg)). run_id_of e = rid
            then copy_paths env
                   (get_paths (set_list env) (connect env cfg)
                      (filter (\<lambda>e. run_id_of e = rid) (get_executions (connect env cfg)))
                      output_dir) w
            else (Some (ValueError
                    (''run_id '' @ rid @ '' is not recorded in the MLMD metadata'')), w))
   \<and> select_executions rt st (Some pn) None = get_latest_executions rt st pn"
proof (intro conjI)
  show "select_executions rt st pipeline_name (Some rid) =
     (if \<exists>e \<in> set (get_executions st). run_id_of e = rid
      then Inr (filter (\<lambda>e. run_id_of e = rid) (get_executions st))
      else Inl (ValueError (''run_id '' @ rid @ '' is not recorded in the MLMD metadata'')))"
    by (rule select_executions_run_id)
next
  show "select_executions rt st pipeline_name (Some rid) =
       select_executions rt' (st\<lparr>contexts := cs, associations := asc\<rparr>) pipeline_name' (Some rid)"
    unfolding select_executions_run_id by (simp add: get_executions_def)
next
  show "record_pipeline env output_dir metadata_db_uri host port pipeline_name (Some rid) w =
       (case choose_config metadata_db_uri host port of
          Inl e \<Rightarrow> (Some e, w)
        | Inr cfg \<Rightarrow>
            if \<exists>e \<in> set (get_executions (connect env cfg)). run_id_of e = rid
            then copy_paths env
                   (get_paths (set_list env) (connect env cfg)
                      (filter (\<lambda>e. run_id_of e = rid) (get_executions (connect env cfg)))
                      output_dir) w
            else (Some (ValueError
                    (''run_id '' @ rid @ '' is not recorded in the MLMD metadata'')), w))"
    unfolding record_pipeline_def select_executions_run_id Let_def
    by (simp split: sum.splits)
next
  show "select_executions rt st (Some pn) None = get_latest_executions rt st pn"
    by (simp add: select_executions_def)
qed

lemma ex_config: "choose_config (Some ''db'') None None = Inr (Sqlite_config ''db'')"
  by (simp add: choose_config_def)

lemma ex_env_fields:
  "run_type ex_env = ''run''" "set_list ex_env = remdups" "connect ex_env cfg = ex_store"
  "gfile_exists ex_env f p = (p \<in> set f)" "os_makedirs ex_env p f = (None, p # f)"
  "copy_dir ex_env s d f = (None, d # f)"
  by (simp_all add: ex_env_def)

lemma ex_executions: "get_executions ex_store = [ex_e1, ex_e2, ex_e3]"
  by (simp add: get_executions_def ex_store_def)

lemma ex_copy_all:
  "copy_paths ex_env
     [(''/data/model'', ''out/Trainer/model''), (''/data/gen'', ''out/Gen/examples'')] ex_world =
   (None,
    \<lparr>fs = [''out/Gen/examples'', ''out/Gen/examples'', ''out/Trainer/model'',
           ''out/Trainer/model'', ''/data/gen'', ''/data/model''],
     performed = [Makedirs ''out/Trainer/model'', Copy_dir ''/data/model'' ''out/Trainer/model'',
                  Makedirs ''out/Gen/examples'', Copy_dir ''/data/gen'' ''out/Gen/examples'']\<rparr>)"
  by (simp add: ex_env_fields ex_world_def)

theorem record_pipeline_by_run_id_witness:
  "select_executions ''run'' ex_store (Some ''p'') (Some ''r1'') = Inr [ex_e1, ex_e3]
   \<and> select_executions ''run'' ex_store None (Some ''r7'') =
       Inl (ValueError ''run_id r7 is not recorded in the MLMD metadata'')
   \<and> record_pipeline ex_env ''out'' (Some ''db'') None None (Some ''p'') (Some ''r1'') ex_world =
       (None,
        \<lparr>fs = [''out/Gen/examples'', ''out/Gen/examples'', ''out/Trainer/model'',
               ''out/Trainer/model'', ''/data/gen'', ''/data/model''],
         performed = [Makedirs ''out/Trainer/model'', Copy_dir ''/data/model'' ''out/Trainer/model'',
                  Makedirs ''out/Gen/examples'', Copy_dir ''/data/gen'' ''out/Gen/examples'']\<rparr>)"
proof -
  note a = record_pipeline_by_run_id [of "''run''" ex_store "Some ''p''" "''r1''" "''run''" "[]" "[]"
      "Some ''p''" ex_env "''out''" "Some ''db''" None None ex_world "''p''"]
  note b = record_pipeline_by_run_id [of "''run''" ex_store None "''r7''" "''run''" "[]" "[]"
      None ex_env "''out''" "Some ''db''" None None ex_world "''p''"]
  from a have 1: "select_executions ''run'' ex_store (Some ''p'') (Some ''r1'') = Inr [ex_e1, ex_e3]"
    by (simp add: ex_executions ex_run_ids)
  from b have 2: "select_executions ''run'' ex_store None (Some ''r7'') =
       Inl (ValueError ''run_id r7 is not recorded in the MLMD metadata'')"
    by (simp add: ex_executions ex_run_ids)
  from a have "record_pipeline ex_env ''out'' (Some ''db'') None None (Some ''p'') (Some ''r1'') ex_world =
       copy_paths ex_env (get_paths remdups ex_store [ex_e1, ex_e3] ''out'') ex_world"
    by (simp add: ex_config ex_env_fields(1-3) ex_executions ex_run_ids del: copy_paths.simps)
  then have 3: "record_pipeline ex_env ''out'' (Some ''db'') None None (Some ''p'') (Some ''r1'') ex_world =
       (None,
        \<lparr>fs = [''out/Gen/examples'', ''out/Gen/examples'', ''out/Trainer/model'',
               ''out/Trainer/model'', ''/data/gen'', ''/data/model''],
         performed = [Makedirs ''out/Trainer/model'', Copy_dir ''/data/model'' ''out/Trainer/model'',
                  Makedirs ''out/Gen/examples'', Copy_dir ''/data/gen'' ''out/Gen/examples'']\<rparr>)"
    unfolding ex_paths ex_copy_all .
  from 1 2 3 show ?thesis by blast
qed

section \<open>The copy loop\<close>

lemma copy_paths_performed:
  "copy_paths env ps w = (None, w') \<Longrightarrow>
     performed w' = performed w @ concat (map (\<lambda>(s, d). [Makedirs d, Copy_dir s d]) ps)"
proof (induction ps arbitrary: w)
  case Nil
  then show ?case by simp
next
  case (Cons p ps)
  obtain s d where p: "p = (s, d)" by (cases p)
  from Cons.prems obtain f1 f2 where
      mk: "os_makedirs env d (fs w) = (None, f1)"
    and cp: "copy_dir env s d f1 = (None, f2)"
    and rest: "copy_paths env ps \<lparr>fs = f2, performed = performed w @ [Makedirs d, Copy_dir s d]\<rparr>
                = (None, w')"
    unfolding p by (auto split: if_splits prod.splits option.splits)
  from Cons.IH [OF rest] show ?case
    unfolding p by simp
qed

lemma copy_paths_append:
  "copy_paths env (xs @ ys) w =
     (case copy_paths env xs w of
        (None, w1) \<Rightarrow> copy_paths env ys w1
      | (Some e, w1) \<Rightarrow> (Some e, w1))"
proof (induction xs arbitrary: w)
  case Nil
  show ?case by simp
next
  case (Cons p xs)
  obtain s d where p: "p = (s, d)" by (cases p)
  show ?case
    unfolding p by (simp add: Cons.IH split: prod.splits option.splits)
qed


lemma ex_select_r1:
  "select_executions (run_type ex_env) (connect ex_env cfg) pn (Some ''r1'') = Inr [ex_e1, ex_e3]"
  by (simp add: select_executions_run_id ex_env_fields ex_executions ex_run_ids)


text \<open>
  C9.  Let the pairs of \<open>get_paths\<close> for the selected executions be \<open>before\<close>, then
  \<open>(s, d)\<close>, then \<open>rest\<close>; let the loop run through \<open>before\<close> without an exception and
  reach the world \<open>w1\<close>, in which \<open>s\<close> does not exist.  Then \<open>record_pipeline\<close> raises
  \<open>FileNotFoundError\<close> for \<open>s\<close> and leaves the world \<open>w1\<close>: the calls made for the
  pairs of \<open>before\<close> stand, nothing is undone, and no call is made for \<open>(s, d)\<close> or
  for a pair of \<open>rest\<close>.
\<close>

theorem record_pipeline_stops_at_missing_source:
  assumes "choose_config metadata_db_uri host port = Inr cfg"
      and "select_executions (run_type env) (connect env cfg) pipeline_name run_id = Inr execs"
      and "get_paths (set_list env) (connect env cfg) execs output_dir = before @ (s, d) # rest"
      and "copy_paths env before w = (None, w1)"
      and "\<not> gfile_exists env (fs w1) s"
  shows "record_pipeline env output_dir metadata_db_uri host port pipeline_name run_id w =
           (Some (FileNotFoundError (s @ '' does not exist'')), w1)
         \<and> performed w1 =
             performed w @ concat (map (\<lambda>(s, d). [Makedirs d, Copy_dir s d]) before)"
proof
  have "copy_paths env (before @ (s, d) # rest) w = copy_paths env ((s, d) # rest) w1"
    unfolding copy_paths_append assms(4) by simp
  also have "\<dots> = (Some (FileNotFoundError (s @ '' does not exist'')), w1)"
    using assms(5) by simp
  finally show "record_pipeline env output_dir metadata_db_uri host port pipeline_name run_id w =
           (Some (FileNotFoundError (s @ '' does not exist'')), w1)"
    unfolding record_pipeline_selected [OF assms(1,2)] assms(3) .
next
  from assms(4) show "performed w1 =
      performed w @ concat (map (\<lambda>(s, d). [Makedirs d, Copy_dir s d]) before)"
    by (rule copy_paths_performed)
qed

theorem record_pipeline_stops_at_missing_source_witness:
  "record_pipeline ex_env ''out'' (Some ''db'') None None None (Some ''r1'') ex_world_partial =
     (Some (FileNotFoundError ''/data/gen does not exist''),
      \<lparr>fs = [''out/Trainer/model'', ''out/Trainer/model'', ''/data/model''],
       performed = [Makedirs ''out/Trainer/model'',
                    Copy_dir ''/data/model'' ''out/Trainer/model'']\<rparr>)"
proof -
  let ?w1 = "\<lparr>fs = [''out/Trainer/model'', ''out/Trainer/model'', ''/data/model''],
       performed = [Makedirs ''out/Trainer/model'',
                    Copy_dir ''/data/model'' ''out/Trainer/model'']\<rparr>"
  have h3: "get_paths (set_list ex_env) (connect ex_env (Sqlite_config ''db'')) [ex_e1, ex_e3] ''out''
      = [(''/data/model'', ''out/Trainer/model'')] @ (''/data/gen'', ''out/Gen/examples'') # []"
    by (simp add: ex_env_fields ex_paths)
  have h4: "copy_paths ex_env [(''/data/model'', ''out/Trainer/model'')] ex_world_partial
      = (None, ?w1)"
    by (simp add: ex_env_fields ex_world_partial_def)
  have h5: "\<not> gfile_exists ex_env (fs ?w1) ''/data/gen''"
    by (simp add: ex_env_fields)
  from record_pipeline_stops_at_missing_source [OF ex_config ex_select_r1 h3 h4 h5]
  show ?thesis by simp
qed

section \<open>An unknown pipeline name\<close>

lemma get_latest_executions_empty:
  assumes "\<forall>c \<in> set (get_contexts_by_type st rt).
             string_value (getitem (c_properties c) ''pipeline_name'') \<noteq> pipeline_name"
  shows "get_latest_executions rt st pipeline_name =
           Inl (ValueError ''max() arg is an empty sequence'')"
proof -
  from assms have "pipeline_run_contexts rt st pipeline_name = []"
    by (simp add: pipeline_run_contexts_def filter_empty_conv)
  then show ?thesis
    by (simp add: get_latest_executions_def)
qed


text \<open>
  C10.  When no context of the pipeline-run type carries the pipeline name,
  \<open>get_latest_executions\<close> raises the \<open>ValueError\<close> of \<open>max\<close> over an empty sequence and
  returns no list; \<open>record_pipeline\<close>, called with a connection it can configure, no run
  id and this pipeline name, raises the same exception and leaves the world as it
  found it, with no call made.
\<close>

theorem get_latest_executions_unknown_pipeline:
  assumes "choose_config metadata_db_uri host port = Inr cfg"
      and "\<forall>c \<in> set (get_contexts_by_type (connect env cfg) (run_type env)).
             string_value (getitem (c_properties c) ''pipeline_name'') \<noteq> pipeline_name"
  shows "get_latest_executions (run_type env) (connect env cfg) pipeline_name =
           Inl (ValueError ''max() arg is an empty sequence'')
         \<and> record_pipeline env output_dir metadata_db_uri host port (Some pipeline_name) None w =
             (Some (ValueError ''max() arg is an empty sequence''), w)"
proof
  from assms(2)
  show latest: "get_latest_executions (run_type env) (connect env cfg) pipeline_name =
           Inl (ValueError ''max() arg is an empty sequence'')"
    by (rule get_latest_executions_empty)
  then have "select_executions (run_type env) (connect env cfg) (Some pipeline_name) None =
      Inl (ValueError ''max() arg is an empty sequence'')"
    by (simp add: select_executions_def)
  with assms(1)
  show "record_pipeline env output_dir metadata_db_uri host port (Some pipeline_name) None w =
             (Some (ValueError ''max() arg is an empty sequence''), w)"
    by (rule record_pipeline_select_error)
qed

lemma ex_no_context_q:
  "\<forall>c \<in> set (get_contexts_by_type (connect ex_env cfg) (run_type ex_env)).
     string_value (getitem (c_properties c) ''pipeline_name'') \<noteq> ''q''"
  by (simp add: ex_env_fields get_contexts_by_type_def getitem_def ex_store_def
      ex_c1_def ex_c2_def)

theorem get_latest_executions_unknown_pipeline_witness:
  "get_latest_executions (run_type ex_env) (connect ex_env (Sqlite_config ''db'')) ''q'' =
     Inl (ValueError ''max() arg is an empty sequence'')
   \<and> record_pipeline ex_env ''out'' (Some ''db'') None None (Some ''q'') None ex_world =
       (Some (ValueError ''max() arg is an empty sequence''), ex_world)"
  by (rule get_latest_executions_unknown_pipeline [OF ex_config ex_no_context_q])

section \<open>Where a pair points\<close>









section \<open>What a completed run has done\<close>








section \<open>When ValueError is raised\<close>






text \<open>A \<open>ValueError\<close> that \<open>os.makedirs\<close> raises ends the run as it is.\<close>

lemma ex_run_nul:
  "record_pipeline ex_env_nul ''out'' (Some ''db'') None None None (Some ''r1'') ex_world =
     (Some (ValueError ''embedded null byte''), ex_world)"
proof -
  have sel: "select_executions (run_type ex_env_nul) (connect ex_env_nul (Sqlite_config ''db''))
      None (Some ''r1'') = Inr [ex_e1, ex_e3]"
    by (simp add: select_executions_run_id ex_env_nul_def ex_env_def ex_executions ex_run_ids)
  show ?thesis
    unfolding record_pipeline_selected [OF ex_config sel]
    by (simp add: ex_env_nul_def ex_env_def ex_paths ex_world_def)
qed




section \<open>The order of the set does not change the pairs\<close>

lemma mset_map_filter_cong:
  "mset xs = mset ys \<Longrightarrow> mset (List.map_filter h xs) = mset (List.map_filter h ys)"
  by (simp add: map_filter_def)

lemma enumerates_mset:
  assumes "enumerates order1" "enumerates order2"
  shows "mset (order1 xs) = mset (order2 xs)"
proof -
  from assms have "distinct (order1 xs)" "distinct (order2 xs)" "set (order1 xs) = set (order2 xs)"
    by (simp_all add: enumerates_def)
  then show ?thesis
    by (simp add: set_eq_iff_mset_eq_distinct)
qed

text \<open>
  Whatever order the set of artifact ids is iterated in, \<open>get_paths\<close> yields the same
  pairs, each as often.
\<close>

lemma get_paths_mset:
  assumes "enumerates order1" "enumerates order2"
  shows "mset (get_paths order1 st execs output_dir) = mset (get_paths order2 st execs output_dir)"
proof -
  let ?ids = "map artifact_id (filter (\<lambda>x. ev_type x = OUTPUT)
                  (get_events_by_execution_ids st (map e_id execs)))"
  have "mset (get_artifacts_by_id st (order1 ?ids)) = mset (get_artifacts_by_id st (order2 ?ids))"
    unfolding get_artifacts_by_id_def
    by (rule mset_map_filter_cong) (rule enumerates_mset [OF assms])
  then show ?thesis
    by (simp add: get_paths_def Let_def)
qed

end
